theory Spec2Isabelle
  imports Complex_Main "HOL-Library.AList"
begin

section \<open>Python values and exceptions\<close>

text \<open>
  Exceptions of the Python sources are values of \<open>error\<close>; a function that may raise
  returns \<open>error + 'a\<close> with \<open>Inl\<close> for the exception. The constructors are the Python
  exception classes that the two modules and the library calls they make can raise.
\<close>

datatype error =
    KeyError string
  | IndexError
  | TypeError
  | AttributeError
  | ValueError string
  | AssertionError

text \<open>
  Values found in a parsed Pinnacle file: strings, integers and lists of nested
  dictionaries (\<open>PlanList\<close>, \<open>ImageSetList\<close>). A dictionary is an association list,
  since Python dictionaries keep insertion order.
\<close>

datatype pval = S string | N int | L "(string \<times> pval) list list"

type_synonym pdict = "(string \<times> pval) list"

definition getitem :: "pdict \<Rightarrow> string \<Rightarrow> error + pval" where
  "getitem d k = (case map_of d k of None \<Rightarrow> Inl (KeyError k) | Some v \<Rightarrow> Inr v)"

definition setitem :: "pdict \<Rightarrow> string \<Rightarrow> pval \<Rightarrow> pdict" where
  "setitem d k v = AList.update k v d"

subsection \<open>\<open>str\<close> of a value\<close>

definition digit_char :: "nat \<Rightarrow> char" where
  "digit_char d = char_of (48 + d)"

function str_nat :: "nat \<Rightarrow> string" where
  "str_nat n = (if n < 10 then [digit_char n] else str_nat (n div 10) @ [digit_char (n mod 10)])"
  by pat_completeness auto
termination
  by (relation "measure id") auto

definition str_int :: "int \<Rightarrow> string" where
  "str_int i = (if i < 0 then CHR ''-'' # str_nat (nat (- i)) else str_nat (nat i))"

text \<open>
  \<open>str\<close> of a string is the string and \<open>str\<close> of an integer its decimal numeral. The
  fields that the facade formats (\<open>LastName\<close>, \<open>FirstName\<close>, \<open>MiddleName\<close>, \<open>PlanID\<close>)
  are scalars in a Patient file; for a list Python prints its \<open>repr\<close>, which is kept
  opaque here as the text \<open>[...]\<close>.
\<close>

fun py_str :: "pval \<Rightarrow> string" where
  "py_str (S s) = s"
| "py_str (N i) = str_int i"
| "py_str (L ds) = ''[...]''"

subsection \<open>\<open>str.split\<close> with a one-character separator\<close>

text \<open>
  \<open>s.split(sep)\<close> cuts \<open>s\<close> at every occurrence of \<open>sep\<close> and keeps empty pieces, so a
  string with \<open>k\<close> separators gives \<open>k + 1\<close> pieces and \<open>''''.split(sep)\<close> is \<open>['''']\<close>.
\<close>

fun split :: "char \<Rightarrow> string \<Rightarrow> string list" where
  "split sep [] = [[]]"
| "split sep (c # cs) =
     (if c = sep then [] # split sep cs
      else (case split sep cs of w # ws \<Rightarrow> (c # w) # ws | [] \<Rightarrow> [[c]]))"

text \<open>\<open>os.path.join\<close> of two components (posixpath).\<close>

definition os_path_join :: "string \<Rightarrow> string \<Rightarrow> string" where
  "os_path_join a b =
     (if b \<noteq> [] \<and> hd b = CHR ''/'' then b
      else if a = [] \<or> last a = CHR ''/'' then a @ b
      else a @ ''/'' @ b)"

section \<open>The Pinnacle facade (\<open>pinnacle.py\<close>)\<close>

subsection \<open>Date of birth\<close>

text \<open>
  Lines 113--125 of \<open>Pinnacle.patient_info\<close>: the choice of the separator and the loop
  that builds \<open>dob\<close> from \<open>dob_list\<close>, with \<open>dob\<close> as the accumulator.
\<close>

definition dob_list :: "string \<Rightarrow> string list" where
  "dob_list dobstr =
     (if CHR ''-'' \<in> set dobstr then split CHR ''-'' dobstr
      else if CHR ''/'' \<in> set dobstr then split CHR ''/'' dobstr
      else split CHR '' '' dobstr)"

fun dob_loop :: "string list \<Rightarrow> string \<Rightarrow> string" where
  "dob_loop [] dob = dob"
| "dob_loop (num # nums) dob =
     dob_loop nums (dob @ (if length num = 1 then CHR ''0'' # num else num))"

definition dob_of :: "string \<Rightarrow> string" where
  "dob_of dobstr = dob_loop (dob_list dobstr) []"

text \<open>The first separator, in the priority order of the source, that occurs in the string.\<close>

definition dob_separator :: "string \<Rightarrow> char" where
  "dob_separator dobstr =
     (if CHR ''-'' \<in> set dobstr then CHR ''-''
      else if CHR ''/'' \<in> set dobstr then CHR ''/'' else CHR '' '')"

definition zero_pad :: "string \<Rightarrow> string" where
  "zero_pad num = (if length num = 1 then CHR ''0'' # num else num)"

text \<open>\<open>sep.join(words)\<close>, to state what \<open>split\<close> computes.\<close>

fun str_join :: "char \<Rightarrow> string list \<Rightarrow> string" where
  "str_join sep [] = []"
| "str_join sep [w] = w"
| "str_join sep (w # v # ws) = w @ sep # str_join sep (v # ws)"

subsection \<open>Collaborators\<close>

text \<open>
  Modelled from the spec: the sub-entity classes \<open>PinnaclePlan\<close> and \<open>PinnacleImage\<close>
  are not part of the sources. The spec says the facade constructs one sub-entity per
  list entry from the dataset path (for a plan, the path of its \<open>Plan_<id>\<close> directory)
  and the entry; a sub-entity is the record of these two constructor arguments.
\<close>

record pinnacle_plan =
  plan_path :: string
  plan_entry :: pdict

record pinnacle_image =
  image_path :: string
  image_entry :: pdict

text \<open>
  Modelled from the spec: the vendor-format reader \<open>pinn_to_dict\<close> and the header records
  \<open>image_info\<close> of an image are read from disk by code that is not part of the sources.
  Both are parameters: what the reader returns for a path, and the list of header records
  of an image, or the exception raised instead.
\<close>

record collaborators =
  pinn_to_dict :: "string \<Rightarrow> error + pdict"
  image_info :: "pinnacle_image \<Rightarrow> error + pdict list"

subsection \<open>The state of a facade instance\<close>

text \<open>
  The three cached attributes start as \<open>None\<close>. The lists \<open>_plans\<close> and \<open>_images\<close> are
  objects that the facade allocates with a list display \<open>[]\<close> and hands out by reference:
  a list object is its identity (the value of the allocation counter when it was created)
  with its contents, so that returning the cached object and building a new one differ.
  The effects of a call are kept in the state as well: the messages passed to
  \<open>logger.debug\<close> and the calls of the converter \<open>convert_image\<close>.
\<close>

record pinnacle =
  self_path :: string
  self_patient_info :: "pdict option"
  self_plans :: "(nat \<times> pinnacle_plan list) option"
  self_images :: "(nat \<times> pinnacle_image list) option"
  allocated :: nat
  debug_log :: "string list"
  converted :: "(pinnacle_image \<times> string) list"

definition Pinnacle_init :: "string \<Rightarrow> pinnacle" where
  "Pinnacle_init p =
     \<lparr>self_path = p, self_patient_info = None, self_plans = None, self_images = None,
      allocated = 0, debug_log = [], converted = []\<rparr>"

text \<open>
  Modelled from the spec: \<open>convert_image\<close> is an external converter whose result the facade
  does not inspect; the call is recorded with its two arguments.
\<close>

definition convert_image :: "pinnacle_image \<Rightarrow> string \<Rightarrow> pinnacle \<Rightarrow> pinnacle" where
  "convert_image im export_path s = s\<lparr>converted := converted s @ [(im, export_path)]\<rparr>"

subsection \<open>\<open>Pinnacle.patient_info\<close>\<close>

text \<open>
  Lines 106--127, after \<open>self._patient_info = pinn_to_dict(path_patient)\<close>: the dictionary
  held by the attribute is updated in place, so an exception leaves the attribute set to
  what had been stored up to that point. \<open>'-' in dobstr\<close> raises \<open>TypeError\<close> for an
  integer; for a list both membership tests are false and \<open>dobstr.split\<close> raises
  \<open>AttributeError\<close>.
\<close>

definition patient_info_fill :: "pdict \<Rightarrow> pinnacle \<Rightarrow> (error + pdict) \<times> pinnacle" where
  "patient_info_fill d s =
     (case getitem d ''LastName'' of
        Inl e \<Rightarrow> (Inl e, s\<lparr>self_patient_info := Some d\<rparr>)
      | Inr last_name \<Rightarrow>
     (case getitem d ''FirstName'' of
        Inl e \<Rightarrow> (Inl e, s\<lparr>self_patient_info := Some d\<rparr>)
      | Inr first_name \<Rightarrow>
     (case getitem d ''MiddleName'' of
        Inl e \<Rightarrow> (Inl e, s\<lparr>self_patient_info := Some d\<rparr>)
      | Inr middle_name \<Rightarrow>
     (let d1 = setitem d ''FullName''
                 (S (py_str last_name @ ''^'' @ py_str first_name @ ''^'' @ py_str middle_name @ ''^''))
      in case getitem d1 ''DateOfBirth'' of
           Inl e \<Rightarrow> (Inl e, s\<lparr>self_patient_info := Some d1\<rparr>)
         | Inr (N i) \<Rightarrow> (Inl TypeError, s\<lparr>self_patient_info := Some d1\<rparr>)
         | Inr (L l) \<Rightarrow> (Inl AttributeError, s\<lparr>self_patient_info := Some d1\<rparr>)
         | Inr (S dobstr) \<Rightarrow>
             (let d2 = setitem d1 ''DOB'' (S (dob_of dobstr))
              in (Inr d2, s\<lparr>self_patient_info := Some d2\<rparr>))))))"

definition patient_info_load :: "collaborators \<Rightarrow> pinnacle \<Rightarrow> (error + pdict) \<times> pinnacle" where
  "patient_info_load c s =
     (let path_patient = os_path_join (self_path s) ''Patient'';
          s1 = s\<lparr>debug_log := debug_log s @ [''Reading patient data from: '' @ path_patient]\<rparr>
      in case pinn_to_dict c path_patient of
           Inl e \<Rightarrow> (Inl e, s1)
         | Inr d \<Rightarrow> patient_info_fill d s1)"

text \<open>\<open>if not self._patient_info\<close> holds for \<open>None\<close> and for an empty dictionary.\<close>

definition patient_info :: "collaborators \<Rightarrow> pinnacle \<Rightarrow> (error + pdict) \<times> pinnacle" where
  "patient_info c s =
     (case self_patient_info s of
        None \<Rightarrow> patient_info_load c s
      | Some d \<Rightarrow> if d = [] then patient_info_load c s else (Inr d, s))"

subsection \<open>\<open>Pinnacle.plans\<close> and \<open>Pinnacle.images\<close>\<close>

definition new_list :: "pinnacle \<Rightarrow> nat \<times> pinnacle" where
  "new_list s = (allocated s, s\<lparr>allocated := Suc (allocated s)\<rparr>)"

definition plans_append :: "pinnacle_plan \<Rightarrow> pinnacle \<Rightarrow> pinnacle" where
  "plans_append p s =
     s\<lparr>self_plans := map_option (\<lambda>(i, ps). (i, ps @ [p])) (self_plans s)\<rparr>"

fun plans_loop :: "pdict list \<Rightarrow> pinnacle \<Rightarrow> (error + unit) \<times> pinnacle" where
  "plans_loop [] s = (Inr (), s)"
| "plans_loop (plan # rest) s =
     (case getitem plan ''PlanID'' of
        Inl e \<Rightarrow> (Inl e, s)
      | Inr pid \<Rightarrow>
          plans_loop rest
            (plans_append
               \<lparr>plan_path = os_path_join (self_path s) (''Plan_'' @ py_str pid),
                plan_entry = plan\<rparr> s))"

text \<open>
  The object held by \<open>self._plans\<close> when the property returns it. The attribute is never
  \<open>None\<close> at that point; the last case keeps the function total.
\<close>

definition plans_result :: "pinnacle \<Rightarrow> (error + nat \<times> pinnacle_plan list) \<times> pinnacle" where
  "plans_result s = (case self_plans s of Some l \<Rightarrow> (Inr l, s) | None \<Rightarrow> (Inl AssertionError, s))"

text \<open>
  Iterating the value of \<open>PlanList\<close>: a list gives its entries; an integer is not iterable;
  a string gives its characters, and subscripting the first of them with \<open>'PlanID'\<close>
  raises \<open>TypeError\<close>.
\<close>

definition plans_populate :: "collaborators \<Rightarrow> pinnacle \<Rightarrow> (error + nat \<times> pinnacle_plan list) \<times> pinnacle" where
  "plans_populate c s =
     (let (i, s1) = new_list s;
          s2 = s1\<lparr>self_plans := Some (i, [])\<rparr>
      in case patient_info c s2 of
           (Inl e, s3) \<Rightarrow> (Inl e, s3)
         | (Inr d, s3) \<Rightarrow>
        (case getitem d ''PlanList'' of
           Inl e \<Rightarrow> (Inl e, s3)
         | Inr (N n) \<Rightarrow> (Inl TypeError, s3)
         | Inr (S str) \<Rightarrow> if str = [] then plans_result s3 else (Inl TypeError, s3)
         | Inr (L entries) \<Rightarrow>
             (case plans_loop entries s3 of
                (Inl e, s4) \<Rightarrow> (Inl e, s4)
              | (Inr u, s4) \<Rightarrow> plans_result s4)))"

text \<open>\<open>if not self._plans\<close> holds for \<open>None\<close> and for an empty list.\<close>

definition plans :: "collaborators \<Rightarrow> pinnacle \<Rightarrow> (error + nat \<times> pinnacle_plan list) \<times> pinnacle" where
  "plans c s =
     (case self_plans s of
        None \<Rightarrow> plans_populate c s
      | Some (i, ps) \<Rightarrow> if ps = [] then plans_populate c s else (Inr (i, ps), s))"

definition images_append :: "pinnacle_image \<Rightarrow> pinnacle \<Rightarrow> pinnacle" where
  "images_append p s =
     s\<lparr>self_images := map_option (\<lambda>(i, ps). (i, ps @ [p])) (self_images s)\<rparr>"

fun images_loop :: "pdict list \<Rightarrow> pinnacle \<Rightarrow> pinnacle" where
  "images_loop [] s = s"
| "images_loop (img # rest) s =
     images_loop rest (images_append \<lparr>image_path = self_path s, image_entry = img\<rparr> s)"

definition images_result :: "pinnacle \<Rightarrow> (error + nat \<times> pinnacle_image list) \<times> pinnacle" where
  "images_result s = (case self_images s of Some l \<Rightarrow> (Inr l, s) | None \<Rightarrow> (Inl AssertionError, s))"

text \<open>
  A non-empty string as \<open>ImageSetList\<close> gives its characters as entries, which the
  constructor would receive; entries are dictionaries here, so that case is an error of
  the constructor.
\<close>

definition images_populate :: "collaborators \<Rightarrow> pinnacle \<Rightarrow> (error + nat \<times> pinnacle_image list) \<times> pinnacle" where
  "images_populate c s =
     (let (i, s1) = new_list s;
          s2 = s1\<lparr>self_images := Some (i, [])\<rparr>
      in case patient_info c s2 of
           (Inl e, s3) \<Rightarrow> (Inl e, s3)
         | (Inr d, s3) \<Rightarrow>
        (case getitem d ''ImageSetList'' of
           Inl e \<Rightarrow> (Inl e, s3)
         | Inr (N n) \<Rightarrow> (Inl TypeError, s3)
         | Inr (S str) \<Rightarrow> if str = [] then images_result s3 else (Inl TypeError, s3)
         | Inr (L entries) \<Rightarrow> images_result (images_loop entries s3)))"

definition images :: "collaborators \<Rightarrow> pinnacle \<Rightarrow> (error + nat \<times> pinnacle_image list) \<times> pinnacle" where
  "images c s =
     (case self_images s of
        None \<Rightarrow> images_populate c s
      | Some (i, ims) \<Rightarrow> if ims = [] then images_populate c s else (Inr (i, ims), s))"

subsection \<open>\<open>Pinnacle.export_image\<close>\<close>

text \<open>
  The \<open>for\<close> loop of lines 174--179. The header of every image the loop reaches is read
  (\<open>im.image_info[0]['SeriesUID']\<close>) before the test; \<open>break\<close> ends the loop after the
  first export.
\<close>

definition first_series_uid :: "collaborators \<Rightarrow> pinnacle_image \<Rightarrow> error + pval" where
  "first_series_uid c im =
     (case image_info c im of
        Inl e \<Rightarrow> Inl e
      | Inr [] \<Rightarrow> Inl IndexError
      | Inr (im_info # others) \<Rightarrow> getitem im_info ''SeriesUID'')"

fun export_image_scan ::
  "collaborators \<Rightarrow> pinnacle_image list \<Rightarrow> string \<Rightarrow> string \<Rightarrow> pinnacle \<Rightarrow> (error + unit) \<times> pinnacle" where
  "export_image_scan c [] series_uid export_path s = (Inr (), s)"
| "export_image_scan c (im # rest) series_uid export_path s =
     (case first_series_uid c im of
        Inl e \<Rightarrow> (Inl e, s)
      | Inr im_suid \<Rightarrow>
          if length series_uid > 0 \<and> im_suid = S series_uid
          then (Inr (), convert_image im export_path s)
          else export_image_scan c rest series_uid export_path s)"

definition export_image ::
  "collaborators \<Rightarrow> pinnacle_image option \<Rightarrow> string \<Rightarrow> string \<Rightarrow> pinnacle \<Rightarrow> (error + unit) \<times> pinnacle" where
  "export_image c img series_uid export_path s =
     (case images c s of
        (Inl e, s1) \<Rightarrow> (Inl e, s1)
      | (Inr (i, ims), s1) \<Rightarrow>
     (case export_image_scan c ims series_uid export_path s1 of
        (Inl e, s2) \<Rightarrow> (Inl e, s2)
      | (Inr u, s2) \<Rightarrow>
     (case img of
        None \<Rightarrow> (Inr (), s2)
      | Some im \<Rightarrow> (Inr (), convert_image im export_path s2))))"

subsection \<open>A sample dataset\<close>

text \<open>
  A Patient file with no plans and three image sets, two of them with the same series
  UID; the header records of an image are its own list entry.
\<close>

definition example_patient :: pdict where
  "example_patient =
     [(''LastName'', S ''Doe''), (''FirstName'', S ''Jane''), (''MiddleName'', S []),
      (''DateOfBirth'', S ''1990/1/2''), (''PlanList'', L []),
      (''ImageSetList'',
         L [[(''ImageSetID'', N 0), (''SeriesUID'', S ''1.2.3'')],
            [(''ImageSetID'', N 1), (''SeriesUID'', S ''1.2.4'')],
            [(''ImageSetID'', N 2), (''SeriesUID'', S ''1.2.4'')]])]"

definition example_collaborators :: collaborators where
  "example_collaborators =
     \<lparr>pinn_to_dict =
        (\<lambda>p. if p = ''/data/Patient'' then Inr example_patient else Inl (ValueError p)),
      image_info = (\<lambda>im. Inr [image_entry im])\<rparr>"

definition example_image :: "int \<Rightarrow> string \<Rightarrow> pinnacle_image" where
  "example_image n uid =
     \<lparr>image_path = ''/data'', image_entry = [(''ImageSetID'', N n), (''SeriesUID'', S uid)]\<rparr>"

section \<open>The dose toolbox (\<open>dose.py\<close>)\<close>

subsection \<open>Arrays\<close>

text \<open>
  A three-dimensional NumPy array is its shape with its elements in C order (the last
  index varies fastest). Coordinates and dose values are real numbers: the rounding of
  the 64-bit floating-point arithmetic is not part of the model, the values that are not
  numbers are (see \<open>npfloat\<close> below).
\<close>

record 'a array3 =
  dims :: "nat \<times> nat \<times> nat"
  elems :: "'a list"

text \<open>The result of \<open>np.squeeze\<close> has any number of axes up to three.\<close>

record ndarray =
  shape :: "nat list"
  data :: "real list"

text \<open>
  What a caller passes for depths or displacements and what \<open>np.array\<close> makes of it: a
  number gives an array with no axis, a sequence of numbers an array with one axis.
\<close>

datatype array_like = Scalar real | Array "real list"

fun np_add :: "array_like \<Rightarrow> real \<Rightarrow> array_like" where
  "np_add (Scalar a) b = Scalar (a + b)"
| "np_add (Array as) b = Array (map (\<lambda>a. a + b) as)"

text \<open>
  The three subscripts \<open>[:, None, None]\<close>, \<open>[None, :, None]\<close> and \<open>[None, None, :]\<close>:
  the slice needs an axis, so an array with no axis raises \<open>IndexError\<close>.
\<close>

fun index_z :: "array_like \<Rightarrow> error + real array3" where
  "index_z (Scalar a) = Inl IndexError"
| "index_z (Array as) = Inr \<lparr>dims = (length as, 1, 1), elems = as\<rparr>"

fun index_y :: "array_like \<Rightarrow> error + real array3" where
  "index_y (Scalar a) = Inl IndexError"
| "index_y (Array as) = Inr \<lparr>dims = (1, length as, 1), elems = as\<rparr>"

fun index_x :: "array_like \<Rightarrow> error + real array3" where
  "index_x (Scalar a) = Inl IndexError"
| "index_x (Array as) = Inr \<lparr>dims = (1, 1, length as), elems = as\<rparr>"

text \<open>
  NumPy broadcasting of three arrays with three axes each: along an axis the sizes
  other than 1 must agree, and an array of size 1 along an axis is read at index 0 there.
\<close>

definition broadcast_dim :: "nat \<Rightarrow> nat \<Rightarrow> nat \<Rightarrow> error + nat" where
  "broadcast_dim a b c =
     (case filter (\<lambda>d. d \<noteq> 1) [a, b, c] of
        [] \<Rightarrow> Inr 1
      | d # ds \<Rightarrow> if list_all (\<lambda>e. e = d) ds then Inr d
                  else Inl (ValueError ''shape mismatch: objects cannot be broadcast to a single shape''))"

definition broadcast_at :: "'a array3 \<Rightarrow> nat \<Rightarrow> nat \<Rightarrow> nat \<Rightarrow> 'a" where
  "broadcast_at a i j k =
     (case dims a of (d0, d1, d2) \<Rightarrow>
        elems a ! (((if d0 = 1 then 0 else i) * d1 + (if d1 = 1 then 0 else j)) * d2
                   + (if d2 = 1 then 0 else k)))"

text \<open>The index triple of the element at a position of the C-order element list.\<close>

definition unravel_index :: "nat \<times> nat \<times> nat \<Rightarrow> nat \<Rightarrow> nat \<times> nat \<times> nat" where
  "unravel_index d f = (case d of (d0, d1, d2) \<Rightarrow> (f div (d1 * d2), (f div d2) mod d1, f mod d2))"

text \<open>The first exception of a list of results, or all the values.\<close>

fun collect :: "(error + 'a) list \<Rightarrow> error + 'a list" where
  "collect [] = Inr []"
| "collect (Inl e # rs) = Inl e"
| "collect (Inr v # rs) = (case collect rs of Inl e \<Rightarrow> Inl e | Inr vs \<Rightarrow> Inr (v # vs))"

text \<open>
  Values of a float array that need not be numbers: dividing by zero in NumPy gives
  \<open>nan\<close> or an infinity with a warning, not an exception.
\<close>

datatype npfloat = Fin real | PosInf | NegInf | NaN


fun times :: "npfloat \<Rightarrow> real \<Rightarrow> npfloat" where
  "times (Fin a) b = Fin (a * b)"
| "times PosInf b = (if 0 < b then PosInf else if b < 0 then NegInf else NaN)"
| "times NegInf b = (if 0 < b then NegInf else if b < 0 then PosInf else NaN)"
| "times NaN b = NaN"

subsection \<open>Datasets and collaborators\<close>

text \<open>
  Modelled from the spec: \<open>xyz_axes_from_dataset\<close> (module \<open>coords\<close>) is not part of the
  sources. The spec says it reads the three spatial axis coordinate arrays of the
  dataset; they are fields of the dataset here, next to the decoded pixel array and the
  scaling factor that \<open>dose_from_dataset\<close> reads.
\<close>

record dose_dataset =
  pixel_array :: "int array3"
  DoseGridScaling :: real
  x_axis :: "real list"
  y_axis :: "real list"
  z_axis :: "real list"

definition xyz_axes_from_dataset :: "dose_dataset \<Rightarrow> real list \<times> real list \<times> real list" where
  "xyz_axes_from_dataset dataset = (x_axis dataset, y_axis dataset, z_axis dataset)"

record point =
  pt_x :: real
  pt_y :: real
  pt_z :: real

text \<open>
  The functions that \<open>dose.py\<close> calls and that are not part of the sources are parameters
  of the model: \<open>RegularGridInterpolator\<close> of SciPy (constructed from the axes and the
  values, it is either an exception or the function that an evaluation applies to each
  query point), \<open>Path.contains_points\<close> of Matplotlib (the polygon and a point),
  \<open>pull_structure\<close> of module \<open>structure\<close> (the x, y and z coordinate lists of every
  contour of the named structure), and \<open>require_gantries_be_zero\<close> and
  \<open>get_surface_entry_point_with_fallback\<close> of module \<open>rtplan\<close>. The structure set and the
  plan are of any type.
\<close>

record ('s, 'p) environment =
  RegularGridInterpolator ::
    "real list \<times> real list \<times> real list \<Rightarrow> real array3 \<Rightarrow> error + (real \<times> real \<times> real \<Rightarrow> error + real)"
  contains_points :: "(real \<times> real) list \<Rightarrow> real \<times> real \<Rightarrow> bool"
  pull_structure :: "string \<Rightarrow> 's \<Rightarrow> error + real list list \<times> real list list \<times> real list list"
  require_gantries_be_zero :: "'p \<Rightarrow> error + unit"
  get_surface_entry_point_with_fallback :: "'p \<Rightarrow> error + point"

subsection \<open>\<open>dose_from_dataset\<close>, \<open>zyx_and_dose_from_dataset\<close>\<close>

text \<open>
  The assignment to \<open>ds.file_meta.TransferSyntaxUID\<close> is an effect on the dataset that
  nothing in this module reads; the dataset is not threaded through for it.
\<close>

definition dose_from_dataset :: "dose_dataset \<Rightarrow> real array3" where
  "dose_from_dataset ds =
     \<lparr>dims = dims (pixel_array ds),
      elems = map (\<lambda>v. real_of_int v * DoseGridScaling ds) (elems (pixel_array ds))\<rparr>"

definition zyx_and_dose_from_dataset ::
  "dose_dataset \<Rightarrow> (real list \<times> real list \<times> real list) \<times> real array3" where
  "zyx_and_dose_from_dataset dataset =
     (case xyz_axes_from_dataset dataset of (x, y, z) \<Rightarrow> ((z, y, x), dose_from_dataset dataset))"

subsection \<open>\<open>dicom_dose_interpolate\<close>\<close>

text \<open>
  Calling the interpolator on a tuple of three arrays: the arrays are broadcast against
  each other, the interpolator is applied to every point of the broadcast arrays, and
  the result has the broadcast shape. An exception at any point is the exception of the
  call.
\<close>

definition interpolation_call ::
  "(real \<times> real \<times> real \<Rightarrow> error + real) \<Rightarrow> real array3 \<Rightarrow> real array3 \<Rightarrow> real array3
     \<Rightarrow> error + real array3" where
  "interpolation_call f az ay ax =
     (case (dims az, dims ay, dims ax) of ((a0, a1, a2), (b0, b1, b2), (c0, c1, c2)) \<Rightarrow>
      case broadcast_dim a0 b0 c0 of Inl e \<Rightarrow> Inl e | Inr d0 \<Rightarrow>
      case broadcast_dim a1 b1 c1 of Inl e \<Rightarrow> Inl e | Inr d1 \<Rightarrow>
      case broadcast_dim a2 b2 c2 of Inl e \<Rightarrow> Inl e | Inr d2 \<Rightarrow>
      case collect
             (map (\<lambda>n. case unravel_index (d0, d1, d2) n of (i, j, k) \<Rightarrow>
                      f (broadcast_at az i j k, broadcast_at ay i j k, broadcast_at ax i j k))
                [0..<d0 * d1 * d2]) of
        Inl e \<Rightarrow> Inl e
      | Inr vs \<Rightarrow> Inr \<lparr>dims = (d0, d1, d2), elems = vs\<rparr>)"

text \<open>
  The \<open>except ValueError\<close> clause prints the axes and raises the exception again; the
  printed text is not part of the model.
\<close>

definition dicom_dose_interpolate ::
  "('s, 'p) environment \<Rightarrow> array_like \<times> array_like \<times> array_like \<Rightarrow> dose_dataset
     \<Rightarrow> error + real array3" where
  "dicom_dose_interpolate E interp_coords dicom_dose_dataset =
     (case interp_coords of (cz, cy, cx) \<Rightarrow>
      case index_z cz of Inl e \<Rightarrow> Inl e | Inr interp_z \<Rightarrow>
      case index_y cy of Inl e \<Rightarrow> Inl e | Inr interp_y \<Rightarrow>
      case index_x cx of Inl e \<Rightarrow> Inl e | Inr interp_x \<Rightarrow>
      case zyx_and_dose_from_dataset dicom_dose_dataset of (coords, dose) \<Rightarrow>
      case RegularGridInterpolator E coords dose of Inl e \<Rightarrow> Inl e | Inr interpolation \<Rightarrow>
        interpolation_call interpolation interp_z interp_y interp_x)"

subsection \<open>\<open>depth_dose\<close> and \<open>profile\<close>\<close>

definition squeeze :: "real array3 \<Rightarrow> ndarray" where
  "squeeze a =
     (case dims a of (d0, d1, d2) \<Rightarrow>
        \<lparr>shape = filter (\<lambda>d. d \<noteq> 1) [d0, d1, d2], data = elems a\<rparr>)"

definition squeezed :: "error + real array3 \<Rightarrow> error + ndarray" where
  "squeezed r = (case r of Inl e \<Rightarrow> Inl e | Inr a \<Rightarrow> Inr (squeeze a))"

definition depth_dose ::
  "('s, 'p) environment \<Rightarrow> array_like \<Rightarrow> dose_dataset \<Rightarrow> 'p \<Rightarrow> error + ndarray" where
  "depth_dose E depths dose_dataset plan_dataset =
     (case require_gantries_be_zero E plan_dataset of Inl e \<Rightarrow> Inl e | Inr u \<Rightarrow>
      case get_surface_entry_point_with_fallback E plan_dataset of
        Inl e \<Rightarrow> Inl e
      | Inr surface_entry_point \<Rightarrow>
          (let depth_adjust = pt_y surface_entry_point;
               y = np_add depths depth_adjust;
               x = Array [pt_x surface_entry_point];
               z = Array [pt_z surface_entry_point];
               coords = (z, y, x)
           in squeezed (dicom_dose_interpolate E coords dose_dataset)))"

text \<open>The message of the \<open>ValueError\<close> that \<open>profile\<close> raises, with its four quoted names.\<close>

definition direction_message :: string where
  "direction_message =
     ''Expected direction to be equal to one of '' @ [CHR 0x27] @ ''inplane'' @ [CHR 0x27]
     @ '', '' @ [CHR 0x27] @ ''inline'' @ [CHR 0x27] @ '', '' @ [CHR 0x27] @ ''crossplane''
     @ [CHR 0x27] @ '', or '' @ [CHR 0x27] @ ''crossline'' @ [CHR 0x27]"

definition profile ::
  "('s, 'p) environment \<Rightarrow> array_like \<Rightarrow> real \<Rightarrow> string \<Rightarrow> dose_dataset \<Rightarrow> 'p \<Rightarrow> error + ndarray" where
  "profile E displacements depth direction dose_dataset plan_dataset =
     (case require_gantries_be_zero E plan_dataset of Inl e \<Rightarrow> Inl e | Inr u \<Rightarrow>
      case get_surface_entry_point_with_fallback E plan_dataset of
        Inl e \<Rightarrow> Inl e
      | Inr surface_entry_point \<Rightarrow>
          (let depth_adjust = pt_y surface_entry_point;
               y = Array [depth + depth_adjust]
           in if direction \<in> set [''inplane'', ''inline''] then
                squeezed (dicom_dose_interpolate E
                  (np_add displacements (pt_z surface_entry_point), y,
                   Array [pt_x surface_entry_point]) dose_dataset)
              else if direction \<in> set [''crossplane'', ''crossline''] then
                squeezed (dicom_dose_interpolate E
                  (Array [pt_z surface_entry_point], y,
                   np_add displacements (pt_x surface_entry_point)) dose_dataset)
              else Inl (ValueError direction_message)))"

subsection \<open>\<open>_get_indices\<close> and \<open>get_dose_grid_structure_mask\<close>\<close>

text \<open>\<open>[item[0] for item in z_list]\<close>: an empty item raises \<open>IndexError\<close>.\<close>

definition first_items :: "real list list \<Rightarrow> error + real list" where
  "first_items z_list =
     collect (map (\<lambda>item. case item of [] \<Rightarrow> Inl IndexError | a # as \<Rightarrow> Inr a) z_list)"

text \<open>\<open>np.where(a == v)[0]\<close>: the positions of \<open>a\<close> that hold exactly \<open>v\<close>, in order.\<close>

definition np_where_eq :: "real list \<Rightarrow> real \<Rightarrow> nat list" where
  "np_where_eq a v = filter (\<lambda>i. a ! i = v) [0..<length a]"

definition get_indices :: "real list list \<Rightarrow> real \<Rightarrow> error + nat list" where
  "get_indices z_list z_val =
     (case first_items z_list of
        Inl e \<Rightarrow> Inl e
      | Inr indices \<Rightarrow> Inr (np_where_eq indices z_val))"

text \<open>
  \<open>int(a)\<close> of an index array: only an array of exactly one element converts, any other
  size raises \<open>TypeError\<close> (only size-1 arrays can be converted to Python scalars).
\<close>

definition int_of_array :: "nat list \<Rightarrow> error + nat" where
  "int_of_array a = (case a of [i] \<Rightarrow> Inr i | _ \<Rightarrow> Inl TypeError)"

definition subscript :: "'a list \<Rightarrow> nat \<Rightarrow> error + 'a" where
  "subscript xs i = (if i < length xs then Inr (xs ! i) else Inl IndexError)"

text \<open>
  The vertices of \<open>structure_polygon\<close>: the comprehension runs over the indices of
  \<open>x_structure[structure_index]\<close> and reads \<open>y_structure[structure_index][i]\<close> at each.
\<close>

definition polygon_vertices ::
  "real list list \<Rightarrow> real list list \<Rightarrow> nat \<Rightarrow> error + (real \<times> real) list" where
  "polygon_vertices x_structure y_structure structure_index =
     (case subscript x_structure structure_index of
        Inl e \<Rightarrow> Inl e
      | Inr px \<Rightarrow>
          if px = [] then Inr []
          else (case subscript y_structure structure_index of
                  Inl e \<Rightarrow> Inl e
                | Inr py \<Rightarrow> if length py < length px then Inl IndexError else Inr (zip px py)))"

text \<open>
  \<open>np.meshgrid(x_dose, y_dose)\<close> ravelled and stacked: the point at position
  \<open>j * len(x_dose) + i\<close> is \<open>(x_dose[i], y_dose[j])\<close>.
\<close>

definition grid_points :: "real list \<Rightarrow> real list \<Rightarrow> (real \<times> real) list" where
  "grid_points x_dose y_dose = concat (map (\<lambda>yv. map (\<lambda>xv. (xv, yv)) x_dose) y_dose)"

definition zeros :: "nat \<times> nat \<times> nat \<Rightarrow> bool array3" where
  "zeros d = (case d of (d0, d1, d2) \<Rightarrow> \<lparr>dims = d, elems = replicate (d0 * d1 * d2) False\<rparr>)"

text \<open>
  \<open>mask[:, :, dose_index] = mask[:, :, dose_index] | plane.reshape(len(y_dose), len(x_dose))\<close>:
  the element at position \<open>n\<close> of the mask has the last index \<open>n mod d2\<close> and lies over
  position \<open>n div d2\<close> of the plane.
\<close>

definition or_slice :: "bool array3 \<Rightarrow> nat \<Rightarrow> bool list \<Rightarrow> bool array3" where
  "or_slice msk dose_index plane =
     (case dims msk of (d0, d1, d2) \<Rightarrow>
        \<lparr>dims = dims msk,
         elems = map (\<lambda>n. if n mod d2 = dose_index then elems msk ! n \<or> plane ! (n div d2)
                          else elems msk ! n) [0..<d0 * d1 * d2]\<rparr>)"

text \<open>The inner loop, over \<open>structure_indices\<close>.\<close>

fun structure_index_loop ::
  "('s, 'p) environment \<Rightarrow> real list list \<Rightarrow> real list list \<Rightarrow> real list list \<Rightarrow> real list
     \<Rightarrow> (real \<times> real) list \<Rightarrow> real \<Rightarrow> nat list \<Rightarrow> bool array3 \<Rightarrow> error + bool array3" where
  "structure_index_loop E x_structure y_structure z_structure z_dose points z_val [] msk =
     Inr msk"
| "structure_index_loop E x_structure y_structure z_structure z_dose points z_val
     (structure_index # rest) msk =
     (case int_of_array (np_where_eq z_dose z_val) of
        Inl e \<Rightarrow> Inl e
      | Inr dose_index \<Rightarrow>
     (case subscript z_structure structure_index of
        Inl e \<Rightarrow> Inl e
      | Inr [] \<Rightarrow> Inl IndexError
      | Inr (z0 # zs) \<Rightarrow>
          if z0 = z_dose ! dose_index then
            (case polygon_vertices x_structure y_structure structure_index of
               Inl e \<Rightarrow> Inl e
             | Inr structure_polygon \<Rightarrow>
                 structure_index_loop E x_structure y_structure z_structure z_dose points z_val
                   rest
                   (or_slice msk dose_index (map (contains_points E structure_polygon) points)))
          else Inl AssertionError))"

text \<open>The outer loop, over \<open>structure_z_values\<close>.\<close>

fun z_val_loop ::
  "('s, 'p) environment \<Rightarrow> real list list \<Rightarrow> real list list \<Rightarrow> real list list \<Rightarrow> real list
     \<Rightarrow> (real \<times> real) list \<Rightarrow> real list \<Rightarrow> bool array3 \<Rightarrow> error + bool array3" where
  "z_val_loop E x_structure y_structure z_structure z_dose points [] msk = Inr msk"
| "z_val_loop E x_structure y_structure z_structure z_dose points (z_val # rest) msk =
     (case get_indices z_structure z_val of
        Inl e \<Rightarrow> Inl e
      | Inr structure_indices \<Rightarrow>
     (case structure_index_loop E x_structure y_structure z_structure z_dose points z_val
             structure_indices msk of
        Inl e \<Rightarrow> Inl e
      | Inr msk' \<Rightarrow>
          z_val_loop E x_structure y_structure z_structure z_dose points rest msk'))"

definition get_dose_grid_structure_mask ::
  "('s, 'p) environment \<Rightarrow> string \<Rightarrow> 's \<Rightarrow> dose_dataset \<Rightarrow> error + bool array3" where
  "get_dose_grid_structure_mask E structure_name dcm_struct dcm_dose =
     (case xyz_axes_from_dataset dcm_dose of (x_dose, y_dose, z_dose) \<Rightarrow>
     (case pull_structure E structure_name dcm_struct of
        Inl e \<Rightarrow> Inl e
      | Inr (x_structure, y_structure, z_structure) \<Rightarrow>
     (case first_items z_structure of
        Inl e \<Rightarrow> Inl e
      | Inr structure_z_values \<Rightarrow>
          z_val_loop E x_structure y_structure z_structure z_dose
            (grid_points x_dose y_dose) structure_z_values
            (zeros (length y_dose, length x_dose, length z_dose)))))"

subsection \<open>\<open>find_dose_within_structure\<close>\<close>



subsection \<open>\<open>create_dvh\<close>\<close>


definition linspace :: "real \<Rightarrow> real \<Rightarrow> nat \<Rightarrow> real list" where
  "linspace start stop intervals =
     map (\<lambda>i. start + real i * ((stop - start) / real intervals)) [0..<Suc intervals]"





text \<open>
  What a Python call leaves behind: the value it returns and the calls it makes on the
  state machine of \<open>matplotlib.pyplot\<close>.
\<close>

datatype py_value = PyNone | PyTuple "real list" "npfloat list"





subsection \<open>An instance of the collaborators, and sample data\<close>

text \<open>
  Modelled from the spec: \<open>require_gantries_be_zero\<close> and
  \<open>get_surface_entry_point_with_fallback\<close> are not part of the sources. The spec says
  that the first fails with an UnsupportedGeometryError if the gantry angle of any beam
  deviates from zero, and that the second returns the explicit entry point of the plan
  when it is populated and a point computed from the source-axis distance, the
  source-to-surface distance and the isocentre position otherwise. The spec gives no
  formula for that point: a plan carries it. The exception of the first is a
  \<open>ValueError\<close> with the spec's name as its text.
\<close>

record plan_dataset =
  gantry_angles :: "real list"
  explicit_entry_point :: "point option"
  computed_entry_point :: point

definition require_gantry_zero :: "plan_dataset \<Rightarrow> error + unit" where
  "require_gantry_zero plan =
     (if list_all (\<lambda>a. a = 0) (gantry_angles plan) then Inr ()
      else Inl (ValueError ''UnsupportedGeometryError''))"

definition resolve_surface_entry_point :: "plan_dataset \<Rightarrow> error + point" where
  "resolve_surface_entry_point plan =
     (case explicit_entry_point plan of
        Some p \<Rightarrow> Inr p
      | None \<Rightarrow> Inr (computed_entry_point plan))"

text \<open>
  Linear interpolation on a regular grid, as SciPy documents \<open>RegularGridInterpolator\<close>
  for its default method with \<open>bounds_error\<close> set: the axes are strictly ascending and
  fit the shape of the values, a query outside the grid raises \<open>ValueError\<close>, and inside
  the value is interpolated linearly along each axis in turn between the two grid planes
  around the query.
\<close>

definition axis_cell :: "real list \<Rightarrow> real \<Rightarrow> nat" where
  "axis_cell grid v = min (length grid - 2) (length (filter (\<lambda>g. g < v) grid) - 1)"

definition lerp :: "real list \<Rightarrow> (nat \<Rightarrow> real) \<Rightarrow> real \<Rightarrow> real" where
  "lerp grid f v =
     (let i = axis_cell grid v;
          t = (v - grid ! i) / (grid ! Suc i - grid ! i)
      in (1 - t) * f i + t * f (Suc i))"

definition inside_axis :: "real list \<Rightarrow> real \<Rightarrow> bool" where
  "inside_axis grid v = (hd grid \<le> v \<and> v \<le> last grid)"

definition valid_axis :: "real list \<Rightarrow> bool" where
  "valid_axis grid = (2 \<le> length grid \<and> sorted_wrt (<) grid)"

definition linear_interpolator ::
  "real list \<times> real list \<times> real list \<Rightarrow> real array3 \<Rightarrow> error + (real \<times> real \<times> real \<Rightarrow> error + real)" where
  "linear_interpolator points vals =
     (case points of (gz, gy, gx) \<Rightarrow>
        if dims vals = (length gz, length gy, length gx)
           \<and> valid_axis gz \<and> valid_axis gy \<and> valid_axis gx
        then Inr (\<lambda>(z, y, x).
               if inside_axis gz z \<and> inside_axis gy y \<and> inside_axis gx x
               then Inr (lerp gz (\<lambda>i. lerp gy (\<lambda>j. lerp gx (\<lambda>k.
                           elems vals ! ((i * length gy + j) * length gx + k)) x) y) z)
               else Inl (ValueError ''One of the requested xi is out of bounds''))
        else Inl (ValueError ''The points do not fit the values''))"

text \<open>
  Containment of a point in a polygon by the even-odd rule: the number of edges that a
  ray from the point towards larger \<open>x\<close> crosses is odd.
\<close>

definition crosses :: "real \<times> real \<Rightarrow> (real \<times> real) \<times> (real \<times> real) \<Rightarrow> bool" where
  "crosses p e =
     (case (p, e) of ((px, py), ((x1, y1), (x2, y2))) \<Rightarrow>
        (y1 > py) \<noteq> (y2 > py) \<and> px < (x2 - x1) * (py - y1) / (y2 - y1) + x1)"

definition even_odd_contains :: "(real \<times> real) list \<Rightarrow> real \<times> real \<Rightarrow> bool" where
  "even_odd_contains polygon p = odd (length (filter (crosses p) (zip polygon (rotate1 polygon))))"

text \<open>A structure set is a list of named structures with their contours.\<close>

type_synonym structure_set = "(string \<times> real list list \<times> real list list \<times> real list list) list"

definition lookup_structure ::
  "string \<Rightarrow> structure_set \<Rightarrow> error + real list list \<times> real list list \<times> real list list" where
  "lookup_structure structure_name dcm_struct =
     (case map_of dcm_struct structure_name of
        None \<Rightarrow> Inl (ValueError ''Structure name not found'')
      | Some contours \<Rightarrow> Inr contours)"

definition example_environment :: "(structure_set, plan_dataset) environment" where
  "example_environment =
     \<lparr>RegularGridInterpolator = linear_interpolator,
      contains_points = even_odd_contains,
      pull_structure = lookup_structure,
      require_gantries_be_zero = require_gantry_zero,
      get_surface_entry_point_with_fallback = resolve_surface_entry_point\<rparr>"

text \<open>
  A dose grid of two samples along each axis, at 0 and 2, with the stored values
  2, 4, ..., 16 and the scaling factor one half.
\<close>

definition example_dose :: dose_dataset where
  "example_dose =
     \<lparr>pixel_array = \<lparr>dims = (2, 2, 2), elems = [2, 4, 6, 8, 10, 12, 14, 16]\<rparr>,
      DoseGridScaling = 1 / 2,
      x_axis = [0, 2], y_axis = [0, 2], z_axis = [0, 2]\<rparr>"

text \<open>
  Three structures, each with one rectangular contour: \<open>BODY\<close> on the slice \<open>z = 0\<close>
  around the two grid points with \<open>y = 0\<close>, \<open>SPOT\<close> on the same slice around the grid
  point at the origin, and \<open>OFFGRID\<close> on \<open>z = 1\<close>, which is not a slice of the dose grid.
\<close>

definition example_structures :: structure_set where
  "example_structures =
     [(''BODY'', [[-1, 3, 3, -1]], [[-1, -1, 1, 1]], [[0, 0, 0, 0]]),
      (''SPOT'', [[-1, 1, 1, -1]], [[-1, -1, 1, 1]], [[0, 0, 0, 0]]),
      (''OFFGRID'', [[-1, 3, 3, -1]], [[-1, -1, 1, 1]], [[1, 1, 1, 1]])]"

definition example_plan :: plan_dataset where
  "example_plan =
     \<lparr>gantry_angles = [0, 0],
      explicit_entry_point = Some \<lparr>pt_x = 1, pt_y = 0, pt_z = 1\<rparr>,
      computed_entry_point = \<lparr>pt_x = 0, pt_y = 0, pt_z = 0\<rparr>\<rparr>"

subsection \<open>Well-formed contours\<close>

text \<open>
  The coordinate lists of a structure whose contours come from coordinate triples: one
  entry per contour in each of the three lists, at least one point in every contour,
  and a \<open>y\<close> for every \<open>x\<close>.
\<close>

definition well_formed_contours ::
  "real list list \<Rightarrow> real list list \<Rightarrow> real list list \<Rightarrow> bool" where
  "well_formed_contours x_structure y_structure z_structure =
     (length x_structure = length z_structure \<and> length y_structure = length z_structure
      \<and> list_all (\<lambda>c. c \<noteq> []) z_structure
      \<and> list_all (\<lambda>(x, y). length x \<le> length y) (zip x_structure y_structure))"

section \<open>Properties\<close>

lemma split_not_Nil: "split sep s \<noteq> []"
  by (induction s) (auto split: list.splits)

lemma dob_loop_concat: "dob_loop nums dob = dob @ concat (map zero_pad nums)"
  by (induction nums arbitrary: dob) (simp_all add: zero_pad_def)

subsection \<open>\<open>str.split\<close>\<close>

lemma split_pieces_free: "w \<in> set (split sep s) \<Longrightarrow> sep \<notin> set w"
  by (induction s arbitrary: w) (auto split: list.splits if_splits)

lemma str_join_Cons: "str_join sep ((a # w) # ws) = a # str_join sep (w # ws)"
  by (cases ws) simp_all

lemma str_join_split: "str_join sep (split sep s) = s"
  by (induction s) (auto split: list.splits simp: split_not_Nil str_join_Cons)

subsection \<open>Date of birth\<close>

text \<open>
  Claim C6. For every date-of-birth string, the normalised \<open>DOB\<close> is the concatenation,
  with no separator, of the pieces of the string cut at \<open>-\<close> when the string has one,
  else at \<open>/\<close> when it has one, else at the space, where every piece of exactly one
  character gets a \<open>0\<close> in front. The strings \<open>1990-01-02\<close>, \<open>1990/1/2\<close> and
  \<open>1990 1 2\<close> all give \<open>19900102\<close>.
\<close>

theorem dob_normalisation:
  "dob_of dobstr = concat (map zero_pad (split (dob_separator dobstr) dobstr))
   \<and> dob_of ''1990-01-02'' = ''19900102''
   \<and> dob_of ''1990/1/2'' = ''19900102''
   \<and> dob_of ''1990 1 2'' = ''19900102''"
proof -
  have general: "dob_of dobstr = concat (map zero_pad (split (dob_separator dobstr) dobstr))"
    by (simp add: dob_of_def dob_list_def dob_separator_def dob_loop_concat)
  have dash: "dob_of ''1990-01-02'' = ''19900102''"
    by (simp add: dob_of_def dob_list_def)
  have slash: "dob_of ''1990/1/2'' = ''19900102''"
    by (simp add: dob_of_def dob_list_def)
  have space: "dob_of ''1990 1 2'' = ''19900102''"
    by (simp add: dob_of_def dob_list_def)
  from general dash slash space show ?thesis by blast
qed

text \<open>The patient record that \<open>patient_info\<close> returns holds that string under \<open>DOB\<close>.\<close>

lemma patient_info_fill_DOB:
  assumes "patient_info_fill d s = (Inr d', s')"
  shows "\<exists>dobstr. getitem d ''DateOfBirth'' = Inr (S dobstr)
           \<and> getitem d' ''DOB'' = Inr (S (dob_of dobstr))"
  using assms
  by (auto simp: patient_info_fill_def Let_def getitem_def setitem_def update_conv'
      split: sum.splits pval.splits option.splits)

subsection \<open>Caching\<close>

lemma setitem_nonempty: "setitem d k v \<noteq> []"
  by (cases d) (simp_all add: setitem_def)

lemma patient_info_fill_nonempty:
  "patient_info_fill d s = (Inr d', s') \<Longrightarrow> d' \<noteq> [] \<and> self_patient_info s' = Some d'"
  by (auto simp: patient_info_fill_def Let_def setitem_nonempty split: sum.splits pval.splits)

text \<open>
  A patient record that was returned once is returned again by every later access, with
  no effect on the state: no second call of the reader, no second log message.
\<close>

lemma patient_info_cached:
  assumes "patient_info c s = (Inr d, s1)"
  shows "patient_info c s1 = (Inr d, s1)"
proof (cases "\<exists>d0. self_patient_info s = Some d0 \<and> d0 \<noteq> []")
  case True
  with assms show ?thesis by (auto simp: patient_info_def)
next
  case False
  with assms have "patient_info_load c s = (Inr d, s1)"
    by (auto simp: patient_info_def split: option.splits if_splits)
  then have "d \<noteq> [] \<and> self_patient_info s1 = Some d"
    by (auto simp: patient_info_load_def Let_def split: sum.splits
        dest: patient_info_fill_nonempty)
  then show ?thesis by (simp add: patient_info_def)
qed

text \<open>A non-empty list of plans or images is the same object at every later access.\<close>

lemma plans_cached:
  assumes "plans c s = (Inr (i, ps), s1)" and "ps \<noteq> []"
  shows "plans c s1 = (Inr (i, ps), s1)"
proof -
  have "self_plans s1 = Some (i, ps)"
    using assms(1)
    by (auto simp: plans_def plans_populate_def plans_result_def Let_def
        split: option.splits if_splits prod.splits sum.splits pval.splits)
  with assms(2) show ?thesis by (simp add: plans_def)
qed

lemma images_cached:
  assumes "images c s = (Inr (i, ps), s1)" and "ps \<noteq> []"
  shows "images c s1 = (Inr (i, ps), s1)"
proof -
  have "self_images s1 = Some (i, ps)"
    using assms(1)
    by (auto simp: images_def images_populate_def images_result_def Let_def
        split: option.splits if_splits prod.splits sum.splits pval.splits)
  with assms(2) show ?thesis by (simp add: images_def)
qed

lemmas example_defs =
  plans_def plans_populate_def plans_result_def images_def images_populate_def
  images_result_def images_append_def new_list_def patient_info_def patient_info_load_def
  patient_info_fill_def Pinnacle_init_def example_collaborators_def example_patient_def
  example_image_def os_path_join_def getitem_def setitem_def dob_of_def dob_list_def Let_def

text \<open>
  Claim C2. Each of \<open>patient_info\<close>, \<open>plans\<close> and \<open>images\<close> is computed at most once per
  instance. The code tests \<open>if not self._plans\<close>, which also holds for the empty list that
  a dataset without plans leaves in the attribute: on the sample dataset the first access
  of \<open>plans\<close> returns the list object number 0 and the second access, on the state the
  first one left, builds and returns a new list object, number 1.
\<close>

theorem plans_empty_recomputed:
  "fst (plans example_collaborators (Pinnacle_init ''/data'')) = Inr (0, [])
   \<and> fst (plans example_collaborators
          (snd (plans example_collaborators (Pinnacle_init ''/data'')))) = Inr (1, [])
   \<and> allocated (snd (plans example_collaborators
          (snd (plans example_collaborators (Pinnacle_init ''/data''))))) = 2"
  by (simp add: example_defs)

subsection \<open>\<open>export_image\<close>\<close>

lemma patient_info_fill_converted: "converted (snd (patient_info_fill d s)) = converted s"
  by (simp add: patient_info_fill_def Let_def split: sum.splits pval.splits)

lemma patient_info_converted: "converted (snd (patient_info c s)) = converted s"
  by (simp add: patient_info_def patient_info_load_def Let_def patient_info_fill_converted
      split: option.splits sum.splits)

lemma images_loop_converted: "converted (images_loop es s) = converted s"
  by (induction es arbitrary: s) (simp_all add: images_append_def)

lemma images_converted: "converted (snd (images c s)) = converted s"
proof -
  have pop: "converted (snd (images_populate c t)) = converted t" for t
    using patient_info_converted
      [of c "(snd (new_list t))\<lparr>self_images := Some (fst (new_list t), [])\<rparr>"]
    by (auto simp: images_populate_def images_result_def new_list_def Let_def
        images_loop_converted split: prod.splits sum.splits pval.splits option.splits)
  show ?thesis
    by (simp add: images_def pop split: option.splits prod.splits)
qed

lemma scan_empty_uid:
  "converted (snd (export_image_scan c ims [] export_path s)) = converted s"
  by (induction ims) (simp_all split: sum.splits)

lemma scan_find:
  "list_all (\<lambda>im. \<not> isl (first_series_uid c im)) ims \<Longrightarrow> series_uid \<noteq> [] \<Longrightarrow>
   export_image_scan c ims series_uid p s =
     (Inr (), s\<lparr>converted := converted s @
        (case find (\<lambda>im. first_series_uid c im = Inr (S series_uid)) ims of
           None \<Rightarrow> [] | Some im \<Rightarrow> [(im, p)])\<rparr>)"
  by (induction ims) (auto simp: convert_image_def split: sum.splits)

text \<open>
  Claim C9. For a call of \<open>export_image\<close> with a non-empty \<open>series_uid\<close> on a facade whose
  image list loads and whose images all have a first header record with a \<open>SeriesUID\<close>:
  the call succeeds, and the converter calls it adds are, in this order, one call for the
  first image of the list whose first header record has that series UID (none when
  there is no such image, and never a second one), then one call for the explicitly
  supplied image when there is one, whether or not the scan matched.
\<close>

theorem export_image_scan_then_explicit:
  assumes "images c s = (Inr (i, ims), s1)"
    and "series_uid \<noteq> []"
    and "list_all (\<lambda>im. \<not> isl (first_series_uid c im)) ims"
  shows "export_image c img series_uid export_path s =
     (Inr (), s1\<lparr>converted := converted s1 @
        (case find (\<lambda>im. first_series_uid c im = Inr (S series_uid)) ims of
           None \<Rightarrow> [] | Some im \<Rightarrow> [(im, export_path)]) @
        (case img of None \<Rightarrow> [] | Some im \<Rightarrow> [(im, export_path)])\<rparr>)"
  using assms(1) scan_find [OF assms(3) assms(2), of export_path s1]
  by (simp add: export_image_def convert_image_def split: option.splits)

theorem export_image_scan_then_explicit_witness:
  "fst (export_image example_collaborators (Some (example_image 7 ''9.9'')) ''1.2.4'' ''out''
          (Pinnacle_init ''/data'')) = Inr ()
   \<and> converted (snd (export_image example_collaborators (Some (example_image 7 ''9.9''))
          ''1.2.4'' ''out'' (Pinnacle_init ''/data''))) =
       [(example_image 1 ''1.2.4'', ''out''), (example_image 7 ''9.9'', ''out'')]"
proof -
  have "\<exists>s1. images example_collaborators (Pinnacle_init ''/data'') =
          (Inr (0, [example_image 0 ''1.2.3'', example_image 1 ''1.2.4'',
                    example_image 2 ''1.2.4'']), s1) \<and> converted s1 = []"
    by (simp add: example_defs)
  then obtain s1 where
    ims: "images example_collaborators (Pinnacle_init ''/data'') =
          (Inr (0, [example_image 0 ''1.2.3'', example_image 1 ''1.2.4'',
                    example_image 2 ''1.2.4'']), s1)"
    and conv: "converted s1 = []"
    by blast
  have uid: "''1.2.4'' \<noteq> []"
    by simp
  have wf: "list_all (\<lambda>im. \<not> isl (first_series_uid example_collaborators im))
              [example_image 0 ''1.2.3'', example_image 1 ''1.2.4'', example_image 2 ''1.2.4'']"
    by (simp add: first_series_uid_def example_collaborators_def example_image_def getitem_def)
  show ?thesis
    using export_image_scan_then_explicit
      [OF ims uid wf, of "Some (example_image 7 ''9.9'')" "''out''"] conv
    by (simp add: first_series_uid_def example_collaborators_def example_image_def getitem_def)
qed

text \<open>
  Claim C10. For a call of \<open>export_image\<close> with the empty \<open>series_uid\<close> (the default), the
  scan passes no image to the converter, whatever the header records hold: the converter
  calls that the call adds are the one for the explicitly supplied image when there is
  one and the call returns, and none otherwise.
\<close>

theorem export_image_empty_uid:
  "converted (snd (export_image c img [] export_path s)) =
     converted s @
     (case (fst (export_image c img [] export_path s), img) of
        (Inr u, Some im) \<Rightarrow> [(im, export_path)]
      | _ \<Rightarrow> [])"
  using images_converted [of c s] scan_empty_uid [of c _ export_path "snd (images c s)"]
  by (auto simp: export_image_def convert_image_def
      split: prod.splits sum.splits option.splits)
    (metis snd_conv)+

subsection \<open>Interpolation on the outer-product grid\<close>

lemma broadcast_dim_a [simp]: "broadcast_dim m 1 1 = Inr m"
  and broadcast_dim_b [simp]: "broadcast_dim 1 m 1 = Inr m"
  and broadcast_dim_c [simp]: "broadcast_dim 1 1 m = Inr m"
  by (simp_all add: broadcast_dim_def)

lemma broadcast_dim_Suc [simp]:
  "broadcast_dim m (Suc 0) (Suc 0) = Inr m"
  "broadcast_dim (Suc 0) m (Suc 0) = Inr m"
  "broadcast_dim (Suc 0) (Suc 0) m = Inr m"
  by (simp_all add: broadcast_dim_def)

lemma collect_map_iff:
  "collect (map g xs) = Inr vs \<longleftrightarrow>
     length vs = length xs \<and> (\<forall>i<length xs. g (xs ! i) = Inr (vs ! i))"
proof (induction xs arbitrary: vs)
  case Nil
  then show ?case by auto
next
  case (Cons a xs)
  show ?case
  proof (cases "g a")
    case (Inl e)
    then show ?thesis by auto
  next
    case (Inr v)
    show ?thesis
    proof (cases vs)
      case Nil
      with Inr show ?thesis by (auto split: sum.splits)
    next
      case (Cons w ws)
      with Inr Cons.IH [of ws] show ?thesis
        by (auto simp: less_Suc_eq_0_disj split: sum.splits)
    qed
  qed
qed

lemma ravel_less:
  assumes "i < m" "j < n" "k < (p::nat)"
  shows "(i * n + j) * p + k < m * n * p"
proof -
  have "Suc i * n \<le> m * n"
    using assms(1) by (simp only: Suc_leI mult_le_mono1)
  with assms(2) have "Suc (i * n + j) \<le> m * n"
    by simp
  then have "Suc (i * n + j) * p \<le> m * n * p"
    by (simp only: mult_le_mono1)
  with assms(3) show ?thesis by simp
qed

lemma unravel_ravel:
  assumes "j < n" "k < (p::nat)"
  shows "unravel_index (m, n, p) ((i * n + j) * p + k) = (i, j, k)"
proof -
  have a: "((i * n + j) * p + k) div p = i * n + j"
    using assms(2) by simp
  have "((i * n + j) * p + k) div (p * n) = (i * n + j) div n"
    by (simp only: div_mult2_eq a)
  then have b: "((i * n + j) * p + k) div (n * p) = i"
    using assms(1) by (simp add: mult.commute)
  show ?thesis
    using assms a b by (simp add: unravel_index_def)
qed

lemma ravel_unravel:
  assumes "f < m * n * (p::nat)"
  shows "f div (n * p) < m \<and> (f div p) mod n < n \<and> f mod p < p
         \<and> (f div (n * p) * n + (f div p) mod n) * p + f mod p = f"
proof -
  have p: "0 < p" and n: "0 < n"
    using assms by (auto intro: Nat.gr0I)
  have "f < m * (n * p)"
    using assms by (simp only: mult.assoc)
  then have m: "f div (n * p) < m"
    by (rule less_mult_imp_div_less)
  have "f div (n * p) = f div p div n"
    by (simp only: mult.commute [of n p] div_mult2_eq)
  then have "f div (n * p) * n + (f div p) mod n = f div p"
    by simp
  with m show ?thesis
    using n p by simp
qed

text \<open>
  Claim C3. For a dose dataset whose interpolator can be constructed, and target
  coordinate arrays \<open>zs\<close>, \<open>ys\<close> and \<open>xs\<close> with one axis each,
  \<open>dicom_dose_interpolate\<close> returns an array exactly when every point of the outer
  product of the three arrays can be interpolated, and the array it returns has the shape
  \<open>len(zs)\<close> by \<open>len(ys)\<close> by \<open>len(xs)\<close> and holds at index \<open>(i, j, k)\<close>
  the interpolated value at the point \<open>(zs[i], ys[j], xs[k])\<close>: the three axes are
  combined independently, not position by position.
\<close>

theorem dicom_dose_interpolate_outer_product:
  assumes "RegularGridInterpolator E (z_axis ds, y_axis ds, x_axis ds) (dose_from_dataset ds) = Inr f"
  shows "dicom_dose_interpolate E (Array zs, Array ys, Array xs) ds = Inr r \<longleftrightarrow>
     dims r = (length zs, length ys, length xs)
     \<and> length (elems r) = length zs * length ys * length xs
     \<and> (\<forall>i<length zs. \<forall>j<length ys. \<forall>k<length xs.
          f (zs ! i, ys ! j, xs ! k) = Inr (elems r ! ((i * length ys + j) * length xs + k)))"
proof -
  let ?m = "length zs" and ?n = "length ys" and ?p = "length xs"
  let ?pt = "\<lambda>n. case unravel_index (?m, ?n, ?p) n of (i, j, k) \<Rightarrow>
                f (broadcast_at \<lparr>dims = (?m, 1, 1), elems = zs\<rparr> i j k,
                   broadcast_at \<lparr>dims = (1, ?n, 1), elems = ys\<rparr> i j k,
                   broadcast_at \<lparr>dims = (1, 1, ?p), elems = xs\<rparr> i j k)"
  have call: "dicom_dose_interpolate E (Array zs, Array ys, Array xs) ds =
      (case collect (map ?pt [0..<?m * ?n * ?p]) of
         Inl e \<Rightarrow> Inl e | Inr vs \<Rightarrow> Inr \<lparr>dims = (?m, ?n, ?p), elems = vs\<rparr>)"
    using assms
    by (simp add: dicom_dose_interpolate_def zyx_and_dose_from_dataset_def
        xyz_axes_from_dataset_def interpolation_call_def)
  have pt: "?pt ((i * ?n + j) * ?p + k) = f (zs ! i, ys ! j, xs ! k)"
    if "i < ?m" "j < ?n" "k < ?p" for i j k
    using that by (auto simp: unravel_ravel broadcast_at_def)
  have flat: "(\<forall>n<?m * ?n * ?p. ?pt n = Inr (vs ! n)) \<longleftrightarrow>
      (\<forall>i<?m. \<forall>j<?n. \<forall>k<?p. f (zs ! i, ys ! j, xs ! k) = Inr (vs ! ((i * ?n + j) * ?p + k)))"
    (is "?L \<longleftrightarrow> ?R") for vs
  proof
    assume l: ?L
    show ?R
    proof (intro allI impI)
      fix i j k assume "i < ?m" "j < ?n" "k < ?p"
      then show "f (zs ! i, ys ! j, xs ! k) = Inr (vs ! ((i * ?n + j) * ?p + k))"
        using l ravel_less [of i ?m j ?n k ?p] pt [of i j k] by auto
    qed
  next
    assume r: ?R
    show ?L
    proof (intro allI impI)
      fix n assume n: "n < ?m * ?n * ?p"
      let ?i = "n div (?n * ?p)" and ?j = "(n div ?p) mod ?n" and ?k = "n mod ?p"
      from ravel_unravel [OF n]
      have b: "?i < ?m" "?j < ?n" "?k < ?p" and e: "(?i * ?n + ?j) * ?p + ?k = n"
        by blast+
      from r b have "f (zs ! ?i, ys ! ?j, xs ! ?k) = Inr (vs ! ((?i * ?n + ?j) * ?p + ?k))"
        by blast
      with pt [OF b] e show "?pt n = Inr (vs ! n)"
        by simp
    qed
  qed
  show ?thesis
  proof
    assume "dicom_dose_interpolate E (Array zs, Array ys, Array xs) ds = Inr r"
    with call obtain vs where vs: "collect (map ?pt [0..<?m * ?n * ?p]) = Inr vs"
      and r: "r = \<lparr>dims = (?m, ?n, ?p), elems = vs\<rparr>"
      by (auto split: sum.splits)
    from vs have "length vs = ?m * ?n * ?p" and "\<forall>n<?m * ?n * ?p. ?pt n = Inr (vs ! n)"
      by (simp_all add: collect_map_iff)
    with flat [of vs] r show "dims r = (?m, ?n, ?p) \<and> length (elems r) = ?m * ?n * ?p
       \<and> (\<forall>i<?m. \<forall>j<?n. \<forall>k<?p.
            f (zs ! i, ys ! j, xs ! k) = Inr (elems r ! ((i * ?n + j) * ?p + k)))"
      by simp
  next
    assume a: "dims r = (?m, ?n, ?p) \<and> length (elems r) = ?m * ?n * ?p
       \<and> (\<forall>i<?m. \<forall>j<?n. \<forall>k<?p.
            f (zs ! i, ys ! j, xs ! k) = Inr (elems r ! ((i * ?n + j) * ?p + k)))"
    with flat [of "elems r"] have "collect (map ?pt [0..<?m * ?n * ?p]) = Inr (elems r)"
      by (simp add: collect_map_iff)
    with call a show "dicom_dose_interpolate E (Array zs, Array ys, Array xs) ds = Inr r"
      by simp
  qed
qed

lemmas example_dose_defs =
  example_environment_def example_dose_def example_plan_def example_structures_def
  require_gantry_zero_def resolve_surface_entry_point_def lookup_structure_def
  linear_interpolator_def valid_axis_def inside_axis_def lerp_def axis_cell_def
  zyx_and_dose_from_dataset_def xyz_axes_from_dataset_def dose_from_dataset_def

theorem dicom_dose_interpolate_outer_product_witness:
  "dicom_dose_interpolate example_environment (Array [0, 2], Array [1], Array [2, 1])
     example_dose = Inr \<lparr>dims = (2, 1, 2), elems = [3, 5 / 2, 7, 13 / 2]\<rparr>"
proof -
  let ?f = "\<lambda>(z, y, x).
       if inside_axis [0, 2] z \<and> inside_axis [0, 2] y \<and> inside_axis [0, 2] x
       then Inr (lerp [0, 2] (\<lambda>i. lerp [0, 2] (\<lambda>j. lerp [0, 2] (\<lambda>k.
              elems (dose_from_dataset example_dose)
                ! ((i * length [0, 2::real] + j) * length [0, 2::real] + k)) x) y) z)
       else Inl (ValueError ''One of the requested xi is out of bounds'')"
  have interp: "RegularGridInterpolator example_environment
      (z_axis example_dose, y_axis example_dose, x_axis example_dose)
      (dose_from_dataset example_dose) = Inr ?f"
  proof -
    have dims: "dims (dose_from_dataset example_dose) = (2, 2, 2)"
      and axes: "z_axis example_dose = [0, 2]" "y_axis example_dose = [0, 2]"
        "x_axis example_dose = [0, 2]"
      by (simp_all add: dose_from_dataset_def example_dose_def)
    show ?thesis
      by (simp add: example_environment_def linear_interpolator_def valid_axis_def dims axes)
  qed
  have vals: "\<forall>i<length [0, 2::real]. \<forall>j<length [1::real]. \<forall>k<length [2, 1::real].
      ?f ([0, 2] ! i, [1] ! j, [2, 1] ! k) =
        Inr (elems \<lparr>dims = (2, 1, 2), elems = [3, 5 / 2, 7, 13 / 2]\<rparr>
               ! ((i * length [1::real] + j) * length [2, 1::real] + k))"
    by (auto simp: less_Suc_eq inside_axis_def lerp_def axis_cell_def
        dose_from_dataset_def example_dose_def Let_def)
  show ?thesis
    using dicom_dose_interpolate_outer_product [OF interp, of "[0, 2]" "[1]" "[2, 1]"
        "\<lparr>dims = (2, 1, 2), elems = [3, 5 / 2, 7, 13 / 2]\<rparr>"] vals
    by simp
qed

subsection \<open>Depth doses and profiles\<close>

text \<open>
  Claim C5. For each of the four direction keywords, every plan, dose dataset and depth,
  \<open>profile\<close> with the displacement 0 has the same outcome as \<open>depth_dose\<close> with that
  depth: the same dose value when one returns, the same exception otherwise. This holds
  for the displacement and the depth given as one-element arrays, and as plain numbers
  (for which both calls raise \<open>IndexError\<close> once the plan has passed its checks).
\<close>

theorem profile_zero_displacement_is_depth_dose:
  assumes "direction \<in> {''inplane'', ''inline'', ''crossplane'', ''crossline''}"
  shows "profile E (Array [0]) depth direction ds plan = depth_dose E (Array [depth]) ds plan
       \<and> profile E (Scalar 0) depth direction ds plan = depth_dose E (Scalar depth) ds plan"
proof -
  have scalar: "dicom_dose_interpolate E (Scalar a, Array [b], Array [c]) ds = Inl IndexError"
    "dicom_dose_interpolate E (Array [a], Scalar b, Array [c]) ds = Inl IndexError"
    "dicom_dose_interpolate E (Array [a], Array [b], Scalar c) ds = Inl IndexError" for a b c
    by (simp_all add: dicom_dose_interpolate_def)
  from assms consider "direction \<in> set [''inplane'', ''inline'']"
    | "direction \<notin> set [''inplane'', ''inline'']" "direction \<in> set [''crossplane'', ''crossline'']"
    by auto
  then show ?thesis
  proof cases
    case 1
    then show ?thesis
      by (simp add: profile_def depth_dose_def Let_def scalar split: sum.splits)
  next
    case 2
    then show ?thesis
      by (simp add: profile_def depth_dose_def Let_def scalar split: sum.splits)
  qed
qed

theorem profile_zero_displacement_is_depth_dose_witness:
  "profile example_environment (Array [0]) 1 ''inplane'' example_dose example_plan =
     depth_dose example_environment (Array [1]) example_dose example_plan
   \<and> depth_dose example_environment (Array [1]) example_dose example_plan =
       Inr \<lparr>shape = [], data = [9 / 2]\<rparr>"
proof -
  have d: "''inplane'' \<in> {''inplane'', ''inline'', ''crossplane'', ''crossline''}"
    by simp
  have v: "depth_dose example_environment (Array [1]) example_dose example_plan =
       Inr \<lparr>shape = [], data = [9 / 2]\<rparr>"
    by (simp add: depth_dose_def squeezed_def squeeze_def dicom_dose_interpolate_def
        interpolation_call_def unravel_index_def broadcast_at_def example_dose_defs Let_def)
  from profile_zero_displacement_is_depth_dose [OF d, of example_environment 1 example_dose example_plan] v
  show ?thesis by simp
qed

text \<open>
  Claim C7. For every direction outside the four keywords, \<open>profile\<close> raises and
  returns no value for any axis: it raises the exception of the gantry check or of the
  entry point resolution when one of them fails, and otherwise the \<open>ValueError\<close>
  (the spec's InvalidArgumentError) whose message names the four accepted values.
\<close>

theorem profile_invalid_direction_raises:
  assumes "direction \<notin> {''inplane'', ''inline'', ''crossplane'', ''crossline''}"
  shows "isl (profile E displacements depth direction ds plan)
       \<and> profile E displacements depth direction ds plan =
           (case require_gantries_be_zero E plan of
              Inl e \<Rightarrow> Inl e
            | Inr u \<Rightarrow>
                (case get_surface_entry_point_with_fallback E plan of
                   Inl e \<Rightarrow> Inl e
                 | Inr p \<Rightarrow> Inl (ValueError direction_message)))"
  using assms by (auto simp: profile_def Let_def split: sum.splits)

theorem profile_invalid_direction_raises_witness:
  "profile example_environment (Array [0]) 1 ''diagonal'' example_dose example_plan =
     Inl (ValueError direction_message)"
proof -
  have d: "''diagonal'' \<notin> {''inplane'', ''inline'', ''crossplane'', ''crossline''}"
    by simp
  from profile_invalid_direction_raises [OF d, of example_environment "Array [0]" 1 example_dose example_plan]
  show ?thesis
    by (simp add: example_environment_def example_plan_def require_gantry_zero_def
        resolve_surface_entry_point_def)
qed

subsection \<open>The structure mask\<close>

lemma first_items_Nil: "first_items [] = Inr []"
  by (simp add: first_items_def)

lemma first_items_Cons:
  "first_items (c # zs) =
     (case c of [] \<Rightarrow> Inl IndexError
      | a # as \<Rightarrow> (case first_items zs of Inl e \<Rightarrow> Inl e | Inr vs \<Rightarrow> Inr (a # vs)))"
  by (simp add: first_items_def split: list.splits)

lemma first_items_Inr:
  "first_items zs = Inr vals \<longleftrightarrow> list_all (\<lambda>c. c \<noteq> []) zs \<and> vals = map hd zs"
proof (induction zs arbitrary: vals)
  case Nil
  then show ?case by (auto simp: first_items_Nil)
next
  case (Cons c zs)
  show ?case
  proof (cases c)
    case Nil
    then show ?thesis by (simp add: first_items_Cons)
  next
    case (Cons a as)
    with Cons.IH show ?thesis
      by (cases "first_items zs") (auto simp: first_items_Cons)
  qed
qed

lemma np_where_eq_iff: "i \<in> set (np_where_eq a v) \<longleftrightarrow> i < length a \<and> a ! i = v"
  by (auto simp: np_where_eq_def)

lemma np_where_eq_nonempty: "v \<in> set a \<Longrightarrow> np_where_eq a v \<noteq> []"
proof -
  assume "v \<in> set a"
  then obtain i where "i < length a" "a ! i = v"
    by (auto simp: in_set_conv_nth)
  then have "i \<in> set (np_where_eq a v)"
    by (simp add: np_where_eq_iff)
  then show ?thesis by auto
qed

lemma int_of_array_Inr: "int_of_array a = Inr i \<longleftrightarrow> a = [i]"
  by (auto simp: int_of_array_def split: list.splits)

lemma int_of_array_Inl: "int_of_array a = Inl e \<Longrightarrow> e = TypeError"
  by (auto simp: int_of_array_def split: list.splits)

lemma dose_index_found:
  assumes "int_of_array (np_where_eq z_dose z_val) = Inr i"
  shows "i < length z_dose \<and> z_dose ! i = z_val"
proof -
  from assms have "i \<in> set (np_where_eq z_dose z_val)"
    by (simp add: int_of_array_Inr)
  then show ?thesis by (simp add: np_where_eq_iff)
qed

lemma structure_index_loop_found:
  assumes "structure_index_loop E xs ys zs z_dose points z_val sis m = Inr m'" and "sis \<noteq> []"
  shows "z_val \<in> set z_dose"
proof (cases sis)
  case Nil
  with assms(2) show ?thesis by simp
next
  case (Cons si rest)
  with assms(1) obtain i where "int_of_array (np_where_eq z_dose z_val) = Inr i"
    by (auto split: sum.splits)
  from dose_index_found [OF this] show ?thesis by auto
qed

lemma z_val_loop_found:
  assumes "z_val_loop E xs ys zs z_dose points vals m = Inr m'"
    and "first_items zs = Inr vals0" and "set vals \<subseteq> set vals0"
  shows "set vals \<subseteq> set z_dose"
  using assms(1,3)
proof (induction vals arbitrary: m)
  case Nil
  then show ?case by simp
next
  case (Cons v vals)
  from Cons.prems(2) have v: "v \<in> set vals0" by simp
  from Cons.prems(1) assms(2) obtain m1 where
    inner: "structure_index_loop E xs ys zs z_dose points v (np_where_eq vals0 v) m = Inr m1"
    and rest: "z_val_loop E xs ys zs z_dose points vals m1 = Inr m'"
    by (auto simp: get_indices_def split: sum.splits)
  from structure_index_loop_found [OF inner np_where_eq_nonempty [OF v]]
  have "v \<in> set z_dose" .
  moreover from Cons.IH [OF rest] Cons.prems(2) have "set vals \<subseteq> set z_dose" by simp
  ultimately show ?case by simp
qed

lemma polygon_vertices_wf:
  assumes "well_formed_contours xs ys zs" and "si < length zs"
  shows "\<exists>poly. polygon_vertices xs ys si = Inr poly"
proof -
  from assms have "si < length xs" "si < length ys" "length (xs ! si) \<le> length (ys ! si)"
    by (auto simp: well_formed_contours_def list_all_length)
  then show ?thesis
    by (simp add: polygon_vertices_def subscript_def)
qed

lemma structure_index_loop_wf:
  assumes "well_formed_contours xs ys zs"
    and "\<forall>si \<in> set sis. si < length zs \<and> hd (zs ! si) = z_val"
  shows "structure_index_loop E xs ys zs z_dose points z_val sis m = Inl e \<Longrightarrow> e = TypeError"
  using assms(2)
proof (induction sis arbitrary: m)
  case Nil
  then show ?case by simp
next
  case (Cons si rest)
  from Cons.prems(2) have si: "si < length zs" "hd (zs ! si) = z_val" by simp_all
  with assms(1) have ne: "zs ! si \<noteq> []"
    by (simp add: well_formed_contours_def list_all_length)
  then obtain z0 zr where z: "zs ! si = z0 # zr" by (cases "zs ! si") auto
  with si have z0: "z0 = z_val" by simp
  from polygon_vertices_wf [OF assms(1) si(1)] obtain poly
    where poly: "polygon_vertices xs ys si = Inr poly" by blast
  show ?case
  proof (cases "int_of_array (np_where_eq z_dose z_val)")
    case (Inl e')
    with Cons.prems(1) int_of_array_Inl [OF Inl] show ?thesis by simp
  next
    case (Inr i)
    from dose_index_found [OF Inr] have "z_dose ! i = z_val" by simp
    with Cons.prems(1) Inr si z z0 poly
    have "structure_index_loop E xs ys zs z_dose points z_val rest
            (or_slice m i (map (contains_points E poly) points)) = Inl e"
      by (simp add: subscript_def)
    from Cons.IH [OF this] Cons.prems(2) show ?thesis by simp
  qed
qed

lemma z_val_loop_wf:
  assumes "well_formed_contours xs ys zs"
  shows "z_val_loop E xs ys zs z_dose points vals m = Inl e \<Longrightarrow> e = TypeError"
proof (induction vals arbitrary: m)
  case Nil
  then show ?case by simp
next
  case (Cons v vals)
  from assms have fi: "first_items zs = Inr (map hd zs)"
    by (simp add: first_items_Inr well_formed_contours_def)
  have idx: "\<forall>si \<in> set (np_where_eq (map hd zs) v). si < length zs \<and> hd (zs ! si) = v"
    by (auto simp: np_where_eq_iff)
  show ?case
  proof (cases "structure_index_loop E xs ys zs z_dose points v (np_where_eq (map hd zs) v) m")
    case (Inl e')
    with Cons.prems fi have "e' = e" by (simp add: get_indices_def)
    with structure_index_loop_wf [OF assms idx Inl] show ?thesis by simp
  next
    case (Inr m1)
    with Cons.prems fi have "z_val_loop E xs ys zs z_dose points vals m1 = Inl e"
      by (simp add: get_indices_def)
    from Cons.IH [OF this] show ?thesis .
  qed
qed

text \<open>
  Claim C4. For every structure with a contour whose z-coordinate, its first one, is not
  exactly equal to any z-coordinate of the dose grid, \<open>get_dose_grid_structure_mask\<close>
  raises: it returns no mask, so the slice is neither skipped nor replaced by a
  neighbour. For well-formed contours the exception is the \<open>TypeError\<close> of converting
  the empty result of \<open>np.where\<close> to an integer (the spec's
  StructureSliceMismatchError).
\<close>

theorem structure_slice_mismatch_raises:
  assumes "pull_structure E structure_name dcm_struct = Inr (xs, ys, zs)"
    and "c \<in> set zs" and "c \<noteq> []" and "hd c \<notin> set (z_axis dcm_dose)"
  shows "isl (get_dose_grid_structure_mask E structure_name dcm_struct dcm_dose)
       \<and> (well_formed_contours xs ys zs \<longrightarrow>
            get_dose_grid_structure_mask E structure_name dcm_struct dcm_dose = Inl TypeError)"
proof -
  let ?r = "get_dose_grid_structure_mask E structure_name dcm_struct dcm_dose"
  have fails: "isl ?r"
  proof (cases ?r)
    case (Inl e)
    then show ?thesis by simp
  next
    case (Inr m)
    with assms(1) obtain vals where fi: "first_items zs = Inr vals"
      and loop: "z_val_loop E xs ys zs (z_axis dcm_dose)
                   (grid_points (x_axis dcm_dose) (y_axis dcm_dose)) vals
                   (zeros (length (y_axis dcm_dose), length (x_axis dcm_dose),
                           length (z_axis dcm_dose))) = Inr m"
      by (auto simp: get_dose_grid_structure_mask_def xyz_axes_from_dataset_def
          split: sum.splits)
    from fi have "vals = map hd zs" by (simp add: first_items_Inr)
    with assms(2) have "hd c \<in> set vals" by simp
    with z_val_loop_found [OF loop fi] assms(4) show ?thesis by auto
  qed
  moreover have "?r = Inl TypeError" if wf: "well_formed_contours xs ys zs"
  proof -
    from fails obtain e where e: "?r = Inl e" by (cases ?r) auto
    from wf have fi: "first_items zs = Inr (map hd zs)"
      by (simp add: first_items_Inr well_formed_contours_def)
    from e assms(1) fi have "z_val_loop E xs ys zs (z_axis dcm_dose)
                   (grid_points (x_axis dcm_dose) (y_axis dcm_dose)) (map hd zs)
                   (zeros (length (y_axis dcm_dose), length (x_axis dcm_dose),
                           length (z_axis dcm_dose))) = Inl e"
      by (simp add: get_dose_grid_structure_mask_def xyz_axes_from_dataset_def)
    from z_val_loop_wf [OF wf this] e show ?thesis by simp
  qed
  ultimately show ?thesis by blast
qed

theorem structure_slice_mismatch_raises_witness:
  "get_dose_grid_structure_mask example_environment ''OFFGRID'' example_structures example_dose
     = Inl TypeError"
proof -
  have pull: "pull_structure example_environment ''OFFGRID'' example_structures =
      Inr ([[-1, 3, 3, -1]], [[-1, -1, 1, 1]], [[1, 1, 1, 1]])"
    by (simp add: example_environment_def lookup_structure_def example_structures_def)
  have c: "[1, 1, 1, 1] \<in> set [[1, 1, 1, 1::real]]" "[1, 1, 1, 1::real] \<noteq> []"
    "hd [1, 1, 1, 1::real] \<notin> set (z_axis example_dose)"
    by (simp_all add: example_dose_def)
  have wf: "well_formed_contours [[-1, 3, 3, -1]] [[-1, -1, 1, 1]] [[1, 1, 1, 1]]"
    by (simp add: well_formed_contours_def)
  from structure_slice_mismatch_raises [OF pull c] wf show ?thesis by blast
qed

subsection \<open>The dose-volume histogram\<close>






lemma length_linspace [simp]: "length (linspace lo hi n) = Suc n"
  by (simp add: linspace_def)





















end
